theory Spec2Isabelle
  imports Main
begin

section \<open>The frontend's API configuration module\<close>

text \<open>
  The module \<^verbatim>\<open>src/frontend/src/config/api.ts\<close> exports three things: the constant
  \<^verbatim>\<open>API_BASE_URL\<close>, the function \<^verbatim>\<open>getApiUrl\<close> and the object \<^verbatim>\<open>API_ENDPOINTS\<close>.
  The specification calls them \<^verbatim>\<open>resolveBaseUrl\<close>, \<^verbatim>\<open>buildUrl\<close> and the endpoint table.

  A TypeScript \<^verbatim>\<open>string\<close> is modelled as a HOL \<^typ>\<open>string\<close>. The module only tests the
  first character against the ASCII character \<^verbatim>\<open>/\<close> and concatenates, so the width of a
  character plays no part.
\<close>

subsection \<open>The JavaScript operations the module uses\<close>

text \<open>
  \<^verbatim>\<open>s.startsWith(searchString)\<close>: the first \<^verbatim>\<open>searchString.length\<close> characters of
  \<^verbatim>\<open>s\<close> are \<^verbatim>\<open>searchString\<close>; false when \<^verbatim>\<open>s\<close> is shorter.
\<close>

definition startsWith :: "string \<Rightarrow> string \<Rightarrow> bool" where
  "startsWith s searchString = (take (length searchString) s = searchString)"

text \<open>
  \<^verbatim>\<open>a || b\<close> where \<^verbatim>\<open>a\<close> is a string or \<^verbatim>\<open>undefined\<close>: the value \<^verbatim>\<open>a\<close> when it is
  truthy (a string of positive length), the value \<^verbatim>\<open>b\<close> otherwise.
\<close>

fun truthy :: "string option \<Rightarrow> bool" where
  "truthy None = False"
| "truthy (Some s) = (0 < length s)"

fun logical_or :: "string option \<Rightarrow> string \<Rightarrow> string" where
  "logical_or None b = b"
| "logical_or (Some a) b = (if truthy (Some a) then a else b)"

subsection \<open>The module\<close>

text \<open>
  \<^verbatim>\<open>import.meta.env\<close> is an object from variable names to strings; a variable that is
  not set reads as \<^verbatim>\<open>undefined\<close>.
\<close>

type_synonym env = "string \<rightharpoonup> string"

text \<open>\<^verbatim>\<open>export const API_BASE_URL = import.meta.env.VITE_API_URL || '';\<close>\<close>

definition API_BASE_URL :: "env \<Rightarrow> string" where
  "API_BASE_URL env = logical_or (env ''VITE_API_URL'') ''''"

text \<open>
  \<^verbatim>\<open>const normalizedEndpoint = endpoint.startsWith('/') ? endpoint : `/${endpoint}`;\<close>
  is the local constant of \<^verbatim>\<open>getApiUrl\<close>.
\<close>

definition normalizedEndpoint :: "string \<Rightarrow> string" where
  "normalizedEndpoint endpoint =
     (if startsWith endpoint ''/'' then endpoint else ''/'' @ endpoint)"

text \<open>
  \<^verbatim>\<open>getApiUrl(endpoint)\<close> returns \<^verbatim>\<open>`${API_BASE_URL}${normalizedEndpoint}`\<close>. It reads
  the module constant \<^verbatim>\<open>API_BASE_URL\<close>, which the model passes as the first argument
  \<open>base\<close>.
\<close>

definition getApiUrl :: "string \<Rightarrow> string \<Rightarrow> string" where
  "getApiUrl base endpoint = base @ normalizedEndpoint endpoint"

text \<open>
  The object literal \<^verbatim>\<open>API_ENDPOINTS\<close>, as the list of its properties in the order of
  the source: each value is a call of \<^verbatim>\<open>getApiUrl\<close> on a literal path.
\<close>

definition API_ENDPOINTS :: "string \<Rightarrow> (string \<times> string) list" where
  "API_ENDPOINTS base =
     [(''CLEAN_REPORT'', getApiUrl base ''/clean-report''),
      (''CLEAN_REPORT_RUNS'', getApiUrl base ''/clean-report/runs''),
      (''LIST_TABLES'', getApiUrl base ''/list-tables''),
      (''RUN_ANALYSIS'', getApiUrl base ''/run-analysis''),
      (''CHAT'', getApiUrl base ''/chat'')]"

subsection \<open>Predicates on paths\<close>

text \<open>A string begins with one slash and not with two.\<close>

definition exactly_one_leading_slash :: "string \<Rightarrow> bool" where
  "exactly_one_leading_slash p = (startsWith p ''/'' \<and> \<not> startsWith p ''//'')"

text \<open>Two slashes stand next to each other somewhere in the string.\<close>

fun has_double_slash :: "string \<Rightarrow> bool" where
  "has_double_slash (a # b # r) =
     ((a = CHR ''/'' \<and> b = CHR ''/'') \<or> has_double_slash (b # r))"
| "has_double_slash _ = False"

subsection \<open>The module at run time\<close>

text \<open>
  At run time the module is a scope with the two \<^verbatim>\<open>const\<close> bindings \<^verbatim>\<open>API_BASE_URL\<close> and
  \<^verbatim>\<open>API_ENDPOINTS\<close> beside the hoisted function \<^verbatim>\<open>getApiUrl\<close>. A \<^verbatim>\<open>const\<close> binding is
  uninitialised until its declaration has been evaluated, and reading it before that
  throws a \<^verbatim>\<open>ReferenceError\<close>. The state also holds \<^verbatim>\<open>import.meta.env\<close>, which line 12
  reads. A computation returns an error, or a value and the state it leaves.
\<close>

datatype js_error = ReferenceError

record module_state =
  import_meta_env :: env
  API_BASE_URL_binding :: "string option"
  API_ENDPOINTS_binding :: "(string \<times> string) list option"

type_synonym 'a js_result = "js_error + ('a \<times> module_state)"

text \<open>
  A call \<^verbatim>\<open>getApiUrl(endpoint)\<close> in a state: line 21 works on the argument alone,
  line 22 reads the binding \<^verbatim>\<open>API_BASE_URL\<close>. The body assigns nothing, so the state
  is handed back as it came.
\<close>

definition getApiUrl_rt :: "module_state \<Rightarrow> string \<Rightarrow> string js_result" where
  "getApiUrl_rt st endpoint =
     (case API_BASE_URL_binding st of
        None \<Rightarrow> Inl ReferenceError
      | Some base \<Rightarrow> Inr (getApiUrl base endpoint, st))"

text \<open>
  The properties of the object literal at lines 26 to 32: each key with the literal
  argument of its \<^verbatim>\<open>getApiUrl\<close> call, in the order of the source.
\<close>

definition API_ENDPOINTS_literal :: "(string \<times> string) list" where
  "API_ENDPOINTS_literal =
     [(''CLEAN_REPORT'', ''/clean-report''),
      (''CLEAN_REPORT_RUNS'', ''/clean-report/runs''),
      (''LIST_TABLES'', ''/list-tables''),
      (''RUN_ANALYSIS'', ''/run-analysis''),
      (''CHAT'', ''/chat'')]"

text \<open>
  An object literal evaluates its property values from first to last; a call that
  throws ends the evaluation with that error.
\<close>

fun eval_properties ::
  "module_state \<Rightarrow> (string \<times> string) list \<Rightarrow> (string \<times> string) list js_result" where
  "eval_properties st [] = Inr ([], st)"
| "eval_properties st ((key, path) # ps) =
     (case getApiUrl_rt st path of
        Inl err \<Rightarrow> Inl err
      | Inr (url, st') \<Rightarrow>
          (case eval_properties st' ps of
             Inl err \<Rightarrow> Inl err
           | Inr (rest, st'') \<Rightarrow> Inr ((key, url) # rest, st'')))"

text \<open>Before the module body runs, both bindings are uninitialised.\<close>

definition initial_state :: "env \<Rightarrow> module_state" where
  "initial_state env =
     \<lparr>import_meta_env = env, API_BASE_URL_binding = None, API_ENDPOINTS_binding = None\<rparr>"

text \<open>Line 12 initialises \<^verbatim>\<open>API_BASE_URL\<close> from the environment.\<close>

definition eval_API_BASE_URL :: "module_state \<Rightarrow> module_state" where
  "eval_API_BASE_URL st =
     st\<lparr>API_BASE_URL_binding := Some (API_BASE_URL (import_meta_env st))\<rparr>"

text \<open>Lines 26 to 32 evaluate the object literal and initialise \<^verbatim>\<open>API_ENDPOINTS\<close>.\<close>

definition eval_API_ENDPOINTS :: "module_state \<Rightarrow> js_error + module_state" where
  "eval_API_ENDPOINTS st =
     (case eval_properties st API_ENDPOINTS_literal of
        Inl err \<Rightarrow> Inl err
      | Inr (table, st') \<Rightarrow> Inr (st'\<lparr>API_ENDPOINTS_binding := Some table\<rparr>))"

text \<open>The module body: the two declarations in the order of the source.\<close>

definition module_eval :: "env \<Rightarrow> js_error + module_state" where
  "module_eval env = eval_API_ENDPOINTS (eval_API_BASE_URL (initial_state env))"

text \<open>What the caller of a computation sees: the error or the value.\<close>

definition outcome :: "'a js_result \<Rightarrow> js_error + 'a" where
  "outcome r = (case r of Inl err \<Rightarrow> Inl err | Inr (v, st) \<Rightarrow> Inr v)"

section \<open>Properties\<close>

subsection \<open>Helper facts\<close>

lemma startsWith_slash_iff: "startsWith e ''/'' = (\<exists>r. e = CHR ''/'' # r)"
  by (cases e) (auto simp: startsWith_def)

lemma startsWith_append_self: "startsWith (base @ p) base"
  by (simp add: startsWith_def)

lemma startsWith_normalizedEndpoint: "startsWith (normalizedEndpoint e) ''/''"
  by (simp add: normalizedEndpoint_def startsWith_def)

subsection \<open>Concatenation of the base and the normalized endpoint\<close>

text \<open>
  C1. For every base and every endpoint \<open>e\<close>, \<open>getApiUrl\<close> returns \<open>base\<close> followed by
  \<open>e\<close> when \<open>e\<close> starts with a slash, and \<open>base\<close> followed by a slash and \<open>e\<close>
  otherwise. Nothing else is inserted or removed.
\<close>

theorem getApiUrl_concat:
  "getApiUrl base e =
     (if (\<exists>r. e = CHR ''/'' # r) then base @ e else base @ ''/'' @ e)"
  by (simp add: getApiUrl_def normalizedEndpoint_def startsWith_slash_iff)

subsection \<open>Slashes in the resolved path\<close>

lemma has_double_slash_normalizedEndpoint:
  "has_double_slash (normalizedEndpoint e) = has_double_slash e"
proof (cases "startsWith e ''/''")
  case True
  then show ?thesis by (simp add: normalizedEndpoint_def)
next
  case False
  then have "normalizedEndpoint e = CHR ''/'' # e"
    by (simp add: normalizedEndpoint_def)
  moreover from False have "has_double_slash (CHR ''/'' # e) = has_double_slash e"
    by (cases e) (auto simp: startsWith_slash_iff)
  ultimately show ?thesis by simp
qed

lemma exactly_one_leading_slash_normalizedEndpoint:
  assumes "\<not> has_double_slash e"
  shows "exactly_one_leading_slash (normalizedEndpoint e)"
proof (cases "startsWith e ''/''")
  case True
  then obtain r where e: "e = CHR ''/'' # r"
    by (auto simp: startsWith_slash_iff)
  with assms have "\<not> startsWith e ''//''"
    by (cases r) (auto simp: startsWith_def)
  with True show ?thesis
    by (simp add: exactly_one_leading_slash_def normalizedEndpoint_def)
next
  case False
  then have "normalizedEndpoint e = CHR ''/'' # e"
    by (simp add: normalizedEndpoint_def)
  moreover from False have "\<not> startsWith (CHR ''/'' # e) ''//''"
    by (cases e) (auto simp: startsWith_def)
  ultimately show ?thesis
    by (simp add: exactly_one_leading_slash_def startsWith_def)
qed

lemma drop_base_getApiUrl: "drop (length base) (getApiUrl base e) = normalizedEndpoint e"
  by (simp add: getApiUrl_def)

text \<open>
  C2, as stated: every resolved path begins with exactly one slash and has no double
  slash, for every base and every endpoint. It fails. An endpoint that already starts
  with two slashes is returned unchanged, and a base that ends in a slash meets the
  slash of the normalized endpoint.
\<close>

theorem resolved_path_one_slash_counterexample:
  "getApiUrl '''' ''//x'' = ''//x''
   \<and> \<not> exactly_one_leading_slash (getApiUrl '''' ''//x'')
   \<and> has_double_slash (getApiUrl '''' ''//x'')
   \<and> has_double_slash (getApiUrl ''/api/'' ''/chat'')
   \<and> (''CHAT'', ''/api//chat'') \<in> set (API_ENDPOINTS ''/api/'')"
  by (simp add: getApiUrl_def normalizedEndpoint_def startsWith_def
      exactly_one_leading_slash_def API_ENDPOINTS_def)

text \<open>
  C2, amended. For every base and endpoint \<open>e\<close> the result is \<open>base\<close> followed by a
  path that starts with a slash. When \<open>e\<close> has no two adjacent slashes, that path begins
  with exactly one slash and has no two adjacent slashes. Every value of the endpoint
  table is \<open>base\<close> followed by such a path, for every base.
\<close>

theorem resolved_path_slashes:
  "take (length base) (getApiUrl base e) = base
   \<and> startsWith (drop (length base) (getApiUrl base e)) ''/''
   \<and> (\<not> has_double_slash e \<longrightarrow>
        exactly_one_leading_slash (drop (length base) (getApiUrl base e))
        \<and> \<not> has_double_slash (drop (length base) (getApiUrl base e)))
   \<and> (\<forall>v \<in> snd ` set (API_ENDPOINTS base).
        take (length base) v = base
        \<and> exactly_one_leading_slash (drop (length base) v)
        \<and> \<not> has_double_slash (drop (length base) v))"
proof -
  have prefix: "take (length base) (getApiUrl base e) = base"
    by (simp add: getApiUrl_def)
  have slash: "startsWith (drop (length base) (getApiUrl base e)) ''/''"
    by (simp add: drop_base_getApiUrl startsWith_normalizedEndpoint)
  have clean: "\<not> has_double_slash e \<longrightarrow>
        exactly_one_leading_slash (drop (length base) (getApiUrl base e))
        \<and> \<not> has_double_slash (drop (length base) (getApiUrl base e))"
    by (simp add: drop_base_getApiUrl exactly_one_leading_slash_normalizedEndpoint
        has_double_slash_normalizedEndpoint)
  have table: "\<forall>v \<in> snd ` set (API_ENDPOINTS base).
        take (length base) v = base
        \<and> exactly_one_leading_slash (drop (length base) v)
        \<and> \<not> has_double_slash (drop (length base) v)"
    by (simp add: API_ENDPOINTS_def getApiUrl_def normalizedEndpoint_def startsWith_def
        exactly_one_leading_slash_def)
  from prefix slash clean table show ?thesis by blast
qed

theorem resolved_path_slashes_witness:
  "\<not> has_double_slash ''list-tables''
   \<and> exactly_one_leading_slash
        (drop (length ''http://127.0.0.1:8082'') (getApiUrl ''http://127.0.0.1:8082'' ''list-tables''))
   \<and> \<not> has_double_slash
        (drop (length ''http://127.0.0.1:8082'') (getApiUrl ''http://127.0.0.1:8082'' ''list-tables''))
   \<and> ''http://127.0.0.1:8082/chat'' \<in> snd ` set (API_ENDPOINTS ''http://127.0.0.1:8082'')
   \<and> exactly_one_leading_slash
        (drop (length ''http://127.0.0.1:8082'') ''http://127.0.0.1:8082/chat'')"
proof -
  have clean: "\<not> has_double_slash ''list-tables''"
    by simp
  have member: "''http://127.0.0.1:8082/chat'' \<in> snd ` set (API_ENDPOINTS ''http://127.0.0.1:8082'')"
    by (simp add: API_ENDPOINTS_def getApiUrl_def normalizedEndpoint_def startsWith_def)
  from clean member
    resolved_path_slashes [of "''http://127.0.0.1:8082''" "''list-tables''"]
  show ?thesis by blast
qed

subsection \<open>The base URL\<close>

text \<open>
  C3. For every environment, \<open>API_BASE_URL\<close> is the value of \<^verbatim>\<open>VITE_API_URL\<close>, verbatim,
  when the variable is set to a non-empty string, and the empty string when the variable
  is not set or is empty. The result is a string in every case: the function has no
  error result.
\<close>

theorem API_BASE_URL_value_or_empty:
  "(env ''VITE_API_URL'' = Some v \<and> v \<noteq> '''' \<longrightarrow> API_BASE_URL env = v)
   \<and> (env ''VITE_API_URL'' = None \<or> env ''VITE_API_URL'' = Some '''' \<longrightarrow>
        API_BASE_URL env = '''')"
  by (auto simp: API_BASE_URL_def)

theorem API_BASE_URL_value_or_empty_witness:
  "API_BASE_URL [''VITE_API_URL'' \<mapsto> ''not a url''] = ''not a url''
   \<and> API_BASE_URL Map.empty = ''''
   \<and> API_BASE_URL [''VITE_API_URL'' \<mapsto> ''''] = ''''"
  using API_BASE_URL_value_or_empty [of "[''VITE_API_URL'' \<mapsto> ''not a url'']" "''not a url''"]
    API_BASE_URL_value_or_empty [of Map.empty "''x''"]
    API_BASE_URL_value_or_empty [of "[''VITE_API_URL'' \<mapsto> '''']" "''x''"]
  by simp

subsection \<open>The slash between the base and the endpoint\<close>

text \<open>
  C4. When \<open>e\<close> does not start with a slash, the result is \<open>base\<close>, one slash, then
  \<open>e\<close>: what follows \<open>base\<close> begins with exactly one slash. When \<open>e\<close> starts with a
  slash, the result is \<open>base\<close> followed by \<open>e\<close>: no slash is added.
\<close>

theorem getApiUrl_slash_after_base:
  "(\<not> startsWith e ''/'' \<longrightarrow>
      getApiUrl base e = base @ ''/'' @ e
      \<and> startsWith (getApiUrl base e) base
      \<and> exactly_one_leading_slash (drop (length base) (getApiUrl base e)))
   \<and> (startsWith e ''/'' \<longrightarrow> getApiUrl base e = base @ e)"
proof (cases "startsWith e ''/''")
  case True
  then show ?thesis by (simp add: getApiUrl_def normalizedEndpoint_def)
next
  case False
  then have "\<not> startsWith (CHR ''/'' # e) ''//''"
    by (cases e) (auto simp: startsWith_def)
  with False show ?thesis
    by (simp add: getApiUrl_def normalizedEndpoint_def exactly_one_leading_slash_def
        startsWith_append_self) (simp add: startsWith_def)
qed

theorem getApiUrl_slash_after_base_witness:
  "\<not> startsWith ''list-tables'' ''/''
   \<and> getApiUrl ''http://127.0.0.1:8082'' ''list-tables'' = ''http://127.0.0.1:8082/list-tables''
   \<and> exactly_one_leading_slash
        (drop (length ''http://127.0.0.1:8082'') (getApiUrl ''http://127.0.0.1:8082'' ''list-tables''))
   \<and> startsWith ''/chat'' ''/''
   \<and> getApiUrl ''http://127.0.0.1:8082'' ''/chat'' = ''http://127.0.0.1:8082/chat''"
proof -
  have no_slash: "\<not> startsWith ''list-tables'' ''/''"
    by (simp add: startsWith_def)
  have slash: "startsWith ''/chat'' ''/''"
    by (simp add: startsWith_def)
  from no_slash getApiUrl_slash_after_base [of "''list-tables''" "''http://127.0.0.1:8082''"]
  have appended: "getApiUrl ''http://127.0.0.1:8082'' ''list-tables''
      = ''http://127.0.0.1:8082'' @ ''/'' @ ''list-tables''"
    and one: "exactly_one_leading_slash
      (drop (length ''http://127.0.0.1:8082'') (getApiUrl ''http://127.0.0.1:8082'' ''list-tables''))"
    by blast+
  from slash getApiUrl_slash_after_base [of "''/chat''" "''http://127.0.0.1:8082''"]
  have unchanged: "getApiUrl ''http://127.0.0.1:8082'' ''/chat'' = ''http://127.0.0.1:8082'' @ ''/chat''"
    by blast
  from appended have "getApiUrl ''http://127.0.0.1:8082'' ''list-tables'' = ''http://127.0.0.1:8082/list-tables''"
    by simp
  moreover from unchanged have "getApiUrl ''http://127.0.0.1:8082'' ''/chat'' = ''http://127.0.0.1:8082/chat''"
    by simp
  ultimately show ?thesis using no_slash slash one by blast
qed

subsection \<open>The endpoint table\<close>

text \<open>
  C5. With the empty base the table is the five keys \<^verbatim>\<open>CLEAN_REPORT\<close>,
  \<^verbatim>\<open>CLEAN_REPORT_RUNS\<close>, \<^verbatim>\<open>LIST_TABLES\<close>, \<^verbatim>\<open>RUN_ANALYSIS\<close>, \<^verbatim>\<open>CHAT\<close> bound to
  \<^verbatim>\<open>/clean-report\<close>, \<^verbatim>\<open>/clean-report/runs\<close>, \<^verbatim>\<open>/list-tables\<close>, \<^verbatim>\<open>/run-analysis\<close>,
  \<^verbatim>\<open>/chat\<close>. For every base the keys are these five, each once, and each is bound to
  \<open>base\<close> followed by its literal path, which normalization leaves as it is.
\<close>

theorem API_ENDPOINTS_table:
  "API_ENDPOINTS '''' =
     [(''CLEAN_REPORT'', ''/clean-report''),
      (''CLEAN_REPORT_RUNS'', ''/clean-report/runs''),
      (''LIST_TABLES'', ''/list-tables''),
      (''RUN_ANALYSIS'', ''/run-analysis''),
      (''CHAT'', ''/chat'')]
   \<and> map fst (API_ENDPOINTS base) =
     [''CLEAN_REPORT'', ''CLEAN_REPORT_RUNS'', ''LIST_TABLES'', ''RUN_ANALYSIS'', ''CHAT'']
   \<and> distinct (map fst (API_ENDPOINTS base))
   \<and> map snd (API_ENDPOINTS base) =
     map (\<lambda>path. base @ normalizedEndpoint path)
       [''/clean-report'', ''/clean-report/runs'', ''/list-tables'', ''/run-analysis'', ''/chat'']
   \<and> map normalizedEndpoint
       [''/clean-report'', ''/clean-report/runs'', ''/list-tables'', ''/run-analysis'', ''/chat'']
     = [''/clean-report'', ''/clean-report/runs'', ''/list-tables'', ''/run-analysis'', ''/chat'']"
  by (simp add: API_ENDPOINTS_def getApiUrl_def normalizedEndpoint_def startsWith_def)

subsection \<open>The scenarios of the specification\<close>

text \<open>
  C6. With \<^verbatim>\<open>VITE_API_URL\<close> not set the base is empty and the endpoint
  \<^verbatim>\<open>clean-report\<close> resolves to \<^verbatim>\<open>/clean-report\<close>. With \<^verbatim>\<open>VITE_API_URL\<close> set to
  \<^verbatim>\<open>http://127.0.0.1:8082\<close> the endpoints \<^verbatim>\<open>/chat\<close> and \<^verbatim>\<open>list-tables\<close> resolve to
  \<^verbatim>\<open>http://127.0.0.1:8082/chat\<close> and \<^verbatim>\<open>http://127.0.0.1:8082/list-tables\<close>.
\<close>

theorem concrete_scenarios:
  "API_BASE_URL Map.empty = ''''
   \<and> getApiUrl (API_BASE_URL Map.empty) ''clean-report'' = ''/clean-report''
   \<and> getApiUrl '''' ''clean-report'' = ''/clean-report''
   \<and> API_BASE_URL [''VITE_API_URL'' \<mapsto> ''http://127.0.0.1:8082''] = ''http://127.0.0.1:8082''
   \<and> getApiUrl (API_BASE_URL [''VITE_API_URL'' \<mapsto> ''http://127.0.0.1:8082'']) ''/chat''
       = ''http://127.0.0.1:8082/chat''
   \<and> getApiUrl (API_BASE_URL [''VITE_API_URL'' \<mapsto> ''http://127.0.0.1:8082'']) ''list-tables''
       = ''http://127.0.0.1:8082/list-tables''"
  by (simp add: API_BASE_URL_def getApiUrl_def normalizedEndpoint_def startsWith_def)

subsection \<open>No operation throws\<close>

lemma getApiUrl_rt_initialised:
  "API_BASE_URL_binding st = Some base \<Longrightarrow> getApiUrl_rt st e = Inr (getApiUrl base e, st)"
  by (simp add: getApiUrl_rt_def)

lemma getApiUrl_rt_uninitialised:
  "getApiUrl_rt (initial_state env) e = Inl ReferenceError"
  by (simp add: getApiUrl_rt_def initial_state_def)

lemma eval_properties_initialised:
  "API_BASE_URL_binding st = Some base \<Longrightarrow>
     eval_properties st ps = Inr (map (\<lambda>(key, path). (key, getApiUrl base path)) ps, st)"
  by (induction ps) (auto simp: getApiUrl_rt_initialised)

lemma API_ENDPOINTS_from_literal:
  "map (\<lambda>(key, path). (key, getApiUrl base path)) API_ENDPOINTS_literal = API_ENDPOINTS base"
  by (simp add: API_ENDPOINTS_literal_def API_ENDPOINTS_def)

lemma module_eval_result:
  "module_eval env =
     Inr \<lparr>import_meta_env = env,
          API_BASE_URL_binding = Some (API_BASE_URL env),
          API_ENDPOINTS_binding = Some (API_ENDPOINTS (API_BASE_URL env))\<rparr>"
proof -
  let ?st = "eval_API_BASE_URL (initial_state env)"
  have base: "API_BASE_URL_binding ?st = Some (API_BASE_URL env)"
    by (simp add: eval_API_BASE_URL_def initial_state_def)
  then have "eval_properties ?st API_ENDPOINTS_literal = Inr (API_ENDPOINTS (API_BASE_URL env), ?st)"
    by (simp add: eval_properties_initialised API_ENDPOINTS_from_literal)
  then show ?thesis
    by (simp add: module_eval_def eval_API_ENDPOINTS_def eval_API_BASE_URL_def initial_state_def)
qed

text \<open>
  C7. The only operation of the module that can throw is the read of a \<^verbatim>\<open>const\<close>
  binding before its declaration has run. For every environment, with the variable set
  or absent, the module body runs to its end without an error: it leaves
  \<^verbatim>\<open>API_BASE_URL\<close> initialised to a string and \<^verbatim>\<open>API_ENDPOINTS\<close> to the table, the five
  calls made while the table is built having returned. In that state every call of
  \<open>getApiUrl\<close>, for every endpoint string, returns a string and no error.
\<close>

theorem module_eval_total:
  "\<exists>st. module_eval env = Inr st
     \<and> API_BASE_URL_binding st = Some (API_BASE_URL env)
     \<and> API_ENDPOINTS_binding st = Some (API_ENDPOINTS (API_BASE_URL env))
     \<and> getApiUrl_rt st e = Inr (getApiUrl (API_BASE_URL env) e, st)"
  by (simp add: module_eval_result getApiUrl_rt_def)

theorem module_eval_total_witness:
  "\<exists>st. module_eval Map.empty = Inr st
     \<and> API_BASE_URL_binding st = Some ''''
     \<and> getApiUrl_rt st ''chat'' = Inr (''/chat'', st)"
proof -
  have base: "API_BASE_URL Map.empty = ''''"
    by (simp add: API_BASE_URL_def)
  have url: "getApiUrl '''' ''chat'' = ''/chat''"
    by (simp add: getApiUrl_def normalizedEndpoint_def startsWith_def)
  from module_eval_total [of Map.empty "''chat''"] obtain st where
    "module_eval Map.empty = Inr st"
    "API_BASE_URL_binding st = Some (API_BASE_URL Map.empty)"
    "getApiUrl_rt st ''chat'' = Inr (getApiUrl (API_BASE_URL Map.empty) ''chat'', st)"
    by blast
  with base url show ?thesis by auto
qed

subsection \<open>Determinism and purity\<close>

text \<open>
  C8. A call of \<open>getApiUrl\<close> leaves the state as it found it, so a second call with
  the same endpoint returns the same string. Its outcome is fixed by the binding
  \<^verbatim>\<open>API_BASE_URL\<close> and the endpoint: two states that agree on that binding give the
  same outcome, whatever \<^verbatim>\<open>import.meta.env\<close> and \<^verbatim>\<open>API_ENDPOINTS\<close> hold in them.
\<close>

theorem getApiUrl_rt_pure:
  "(getApiUrl_rt st e = Inr (u, st1) \<longrightarrow> st1 = st \<and> getApiUrl_rt st1 e = Inr (u, st1))
   \<and> (API_BASE_URL_binding st = API_BASE_URL_binding st' \<longrightarrow>
        outcome (getApiUrl_rt st e) = outcome (getApiUrl_rt st' e))"
proof -
  have again: "getApiUrl_rt st e = Inr (u, st1) \<longrightarrow> st1 = st \<and> getApiUrl_rt st1 e = Inr (u, st1)"
    by (cases "API_BASE_URL_binding st") (auto simp: getApiUrl_rt_def)
  have same: "API_BASE_URL_binding st = API_BASE_URL_binding st' \<longrightarrow>
        outcome (getApiUrl_rt st e) = outcome (getApiUrl_rt st' e)"
    by (cases "API_BASE_URL_binding st'") (auto simp: getApiUrl_rt_def outcome_def)
  from again same show ?thesis by blast
qed

theorem getApiUrl_rt_pure_witness:
  "getApiUrl_rt
      \<lparr>import_meta_env = [''VITE_API_URL'' \<mapsto> ''/api''],
       API_BASE_URL_binding = Some ''/api'', API_ENDPOINTS_binding = None\<rparr> ''chat''
     = Inr (''/api/chat'',
        \<lparr>import_meta_env = [''VITE_API_URL'' \<mapsto> ''/api''],
         API_BASE_URL_binding = Some ''/api'', API_ENDPOINTS_binding = None\<rparr>)
   \<and> API_BASE_URL_binding
        \<lparr>import_meta_env = [''VITE_API_URL'' \<mapsto> ''/api''],
         API_BASE_URL_binding = Some ''/api'', API_ENDPOINTS_binding = None\<rparr>
     = API_BASE_URL_binding
        \<lparr>import_meta_env = [''VITE_API_URL'' \<mapsto> ''http://127.0.0.1:8082''],
         API_BASE_URL_binding = Some ''/api'',
         API_ENDPOINTS_binding = Some (API_ENDPOINTS ''/api'')\<rparr>
   \<and> outcome (getApiUrl_rt
        \<lparr>import_meta_env = [''VITE_API_URL'' \<mapsto> ''/api''],
         API_BASE_URL_binding = Some ''/api'', API_ENDPOINTS_binding = None\<rparr> ''chat'')
     = outcome (getApiUrl_rt
        \<lparr>import_meta_env = [''VITE_API_URL'' \<mapsto> ''http://127.0.0.1:8082''],
         API_BASE_URL_binding = Some ''/api'',
         API_ENDPOINTS_binding = Some (API_ENDPOINTS ''/api'')\<rparr> ''chat'')"
proof -
  let ?st = "\<lparr>import_meta_env = [''VITE_API_URL'' \<mapsto> ''/api''],
       API_BASE_URL_binding = Some ''/api'', API_ENDPOINTS_binding = None\<rparr>"
  let ?st' = "\<lparr>import_meta_env = [''VITE_API_URL'' \<mapsto> ''http://127.0.0.1:8082''],
       API_BASE_URL_binding = Some ''/api'',
       API_ENDPOINTS_binding = Some (API_ENDPOINTS ''/api'')\<rparr>"
  have call: "getApiUrl_rt ?st ''chat'' = Inr (''/api/chat'', ?st)"
    by (simp add: getApiUrl_rt_def getApiUrl_def normalizedEndpoint_def startsWith_def)
  have agree: "API_BASE_URL_binding ?st = API_BASE_URL_binding ?st'"
    by simp
  from call agree getApiUrl_rt_pure [of ?st "''chat''" "''/api/chat''" ?st ?st']
  show ?thesis by blast
qed

subsection \<open>The empty endpoint\<close>

text \<open>
  C9. The empty endpoint does not start with a slash, so it is normalized to a single
  slash: the result is the base followed by one slash.
\<close>

theorem getApiUrl_empty_endpoint:
  "getApiUrl base '''' = base @ ''/'' \<and> normalizedEndpoint '''' = ''/''"
  by (simp add: getApiUrl_def normalizedEndpoint_def startsWith_def)

subsection \<open>Idempotence and the base as a prefix\<close>

text \<open>
  C10. With the empty base, resolving a resolved endpoint changes nothing. For every
  base, the result starts with the base, and when the endpoint starts with a slash the
  rest of the result is the endpoint itself.
\<close>

theorem getApiUrl_idempotent_prefix:
  "getApiUrl '''' (getApiUrl '''' e) = getApiUrl '''' e
   \<and> startsWith (getApiUrl base e) base
   \<and> take (length base) (getApiUrl base e) = base
   \<and> (startsWith e ''/'' \<longrightarrow> drop (length base) (getApiUrl base e) = e)"
proof -
  have "startsWith (getApiUrl '''' e) ''/''"
    by (simp add: getApiUrl_def startsWith_normalizedEndpoint)
  then have idem: "getApiUrl '''' (getApiUrl '''' e) = getApiUrl '''' e"
    by (simp add: getApiUrl_def normalizedEndpoint_def)
  have pre: "startsWith (getApiUrl base e) base"
    by (simp add: getApiUrl_def startsWith_append_self)
  then have pre': "take (length base) (getApiUrl base e) = base"
    by (simp add: startsWith_def)
  have rest: "startsWith e ''/'' \<longrightarrow> drop (length base) (getApiUrl base e) = e"
    by (simp add: drop_base_getApiUrl normalizedEndpoint_def)
  from idem pre pre' rest show ?thesis by blast
qed

theorem getApiUrl_idempotent_prefix_witness:
  "startsWith ''/chat'' ''/''
   \<and> drop (length ''http://127.0.0.1:8082'') (getApiUrl ''http://127.0.0.1:8082'' ''/chat'') = ''/chat''
   \<and> getApiUrl '''' (getApiUrl '''' ''chat'') = getApiUrl '''' ''chat''"
proof -
  have slash: "startsWith ''/chat'' ''/''"
    by (simp add: startsWith_def)
  from slash getApiUrl_idempotent_prefix [of "''/chat''" "''http://127.0.0.1:8082''"]
    getApiUrl_idempotent_prefix [of "''chat''" "''''"]
  show ?thesis by blast
qed

end
